theory Spec2Isabelle
  imports Complex_Main "HOL-Library.Sublist"
begin

section \<open>Go strings and the library functions the program calls\<close>

text \<open>
  A Go string is a sequence of bytes, here a \<open>char list\<close>. The program calls
  \<open>strings.TrimSpace\<close>, \<open>strings.Contains\<close>, \<open>strconv.Atoi\<close> and formats integers
  with \<open>%d\<close>. They belong to the Go standard library and are modelled from its
  documented behaviour.

  \<open>spaceRunes\<close> lists the UTF-8 encodings of the code points for which
  \<open>unicode.IsSpace\<close> holds: tab, line feed, vertical tab, form feed, carriage return,
  space, U+0085, U+00A0, U+1680, U+2000 to U+200A, U+2028, U+2029, U+202F, U+205F and
  U+3000.
\<close>

definition spaceRunes :: "string list" where
  "spaceRunes =
    [[CHR 0x09], [CHR 0x0A], [CHR 0x0B], [CHR 0x0C], [CHR 0x0D], [CHR 0x20],
     [CHR 0xC2, CHR 0x85], [CHR 0xC2, CHR 0xA0],
     [CHR 0xE1, CHR 0x9A, CHR 0x80],
     [CHR 0xE2, CHR 0x80, CHR 0x80], [CHR 0xE2, CHR 0x80, CHR 0x81],
     [CHR 0xE2, CHR 0x80, CHR 0x82], [CHR 0xE2, CHR 0x80, CHR 0x83],
     [CHR 0xE2, CHR 0x80, CHR 0x84], [CHR 0xE2, CHR 0x80, CHR 0x85],
     [CHR 0xE2, CHR 0x80, CHR 0x86], [CHR 0xE2, CHR 0x80, CHR 0x87],
     [CHR 0xE2, CHR 0x80, CHR 0x88], [CHR 0xE2, CHR 0x80, CHR 0x89],
     [CHR 0xE2, CHR 0x80, CHR 0x8A],
     [CHR 0xE2, CHR 0x80, CHR 0xA8], [CHR 0xE2, CHR 0x80, CHR 0xA9],
     [CHR 0xE2, CHR 0x80, CHR 0xAF],
     [CHR 0xE2, CHR 0x81, CHR 0x9F],
     [CHR 0xE3, CHR 0x80, CHR 0x80]]"

text \<open>The white-space rune a string starts with, and the one it ends with, if any.\<close>

definition leadingSpace :: "string \<Rightarrow> string option" where
  "leadingSpace s = find (\<lambda>q. prefix q s) spaceRunes"

definition trailingSpace :: "string \<Rightarrow> string option" where
  "trailingSpace s = find (\<lambda>q. suffix q s) spaceRunes"

function trimLeft :: "string \<Rightarrow> string" where
  "trimLeft s =
     (case leadingSpace s of
        None \<Rightarrow> s
      | Some q \<Rightarrow> trimLeft (drop (length q) s))"
  by pat_completeness auto
termination
proof (relation "measure length")
  show "wf (measure length)" by simp
next
  fix s q
  assume "leadingSpace s = Some q"
  then have "prefix q s" and "q \<in> set spaceRunes"
    unfolding leadingSpace_def find_Some_iff by auto
  then have "q \<noteq> []" and "s \<noteq> []"
    unfolding spaceRunes_def by auto
  then show "(drop (length q) s, s) \<in> measure length" by simp
qed

function trimRight :: "string \<Rightarrow> string" where
  "trimRight s =
     (case trailingSpace s of
        None \<Rightarrow> s
      | Some q \<Rightarrow> trimRight (take (length s - length q) s))"
  by pat_completeness auto
termination
proof (relation "measure length")
  show "wf (measure length)" by simp
next
  fix s q
  assume "trailingSpace s = Some q"
  then have "suffix q s" and "q \<in> set spaceRunes"
    unfolding trailingSpace_def find_Some_iff by auto
  then have "q \<noteq> []" and "s \<noteq> []"
    unfolding spaceRunes_def by auto
  then show "(take (length s - length q) s, s) \<in> measure length" by simp
qed

declare trimLeft.simps [simp del]
declare trimRight.simps [simp del]

text \<open>\<open>strings.TrimSpace\<close>: all leading and trailing white space removed.\<close>

definition TrimSpace :: "string \<Rightarrow> string" where
  "TrimSpace s = trimRight (trimLeft s)"

text \<open>\<open>strings.Contains s substr\<close>: \<open>substr\<close> occurs in \<open>s\<close> as a contiguous run.\<close>

fun Contains :: "string \<Rightarrow> string \<Rightarrow> bool" where
  "Contains [] substr = (substr = [])"
| "Contains (c # cs) substr = (prefix substr (c # cs) \<or> Contains cs substr)"

text \<open>The verb \<open>%d\<close> (and \<open>strconv.Itoa\<close>): decimal digits, \<open>-\<close> before a negative.\<close>

definition digitChar :: "nat \<Rightarrow> char" where
  "digitChar d = ''0123456789'' ! d"

function digits :: "nat \<Rightarrow> string" where
  "digits n = (if n < 10 then [digitChar n] else digits (n div 10) @ [digitChar (n mod 10)])"
  by pat_completeness auto
termination
  by (relation "measure id") auto

declare digits.simps [simp del]

definition Itoa :: "int \<Rightarrow> string" where
  "Itoa i = (if i < 0 then CHR ''-'' # digits (nat (- i)) else digits (nat i))"

text \<open>
  \<open>strconv.Atoi\<close> on a 64-bit \<open>int\<close>: an optional sign, then one or more ASCII
  digits, no other byte; a value outside the 64-bit range is an error too. The loop
  over the digits subtracts \<open>'0'\<close> from each byte (a byte wraps around) and rejects a
  difference above 9. The caller drops the error value, so \<open>None\<close> stands for every
  \<open>*NumError\<close>.
\<close>

fun atoiDigits :: "string \<Rightarrow> nat \<Rightarrow> nat option" where
  "atoiDigits [] n = Some n"
| "atoiDigits (ch # s) n =
     (let d = (of_char ch + 256 - 48) mod 256 :: nat
      in if d > 9 then None else atoiDigits s (n * 10 + d))"

definition Atoi :: "string \<Rightarrow> int option" where
  "Atoi s0 =
     (case s0 of
        [] \<Rightarrow> None
      | c # cs \<Rightarrow>
          (let s = (if c = CHR ''-'' \<or> c = CHR ''+'' then cs else s0)
           in if s = [] then None
              else (case atoiDigits s 0 of
                      None \<Rightarrow> None
                    | Some n \<Rightarrow>
                        if c = CHR ''-''
                        then (if n > 2 ^ 63 then None else Some (- int n))
                        else (if n \<ge> 2 ^ 63 then None else Some (int n)))))"

text \<open>
  The conversion \<open>int(port)\<close> of a \<open>float64\<close> drops the fraction (towards zero). For
  a value outside the 64-bit range the Go specification leaves the result to the
  implementation; the model gives the smallest 64-bit integer, as amd64 does. The
  number a JSON document holds is modelled as a real.
\<close>

definition goInt :: "real \<Rightarrow> int" where
  "goInt x =
     (let t = (if 0 \<le> x then \<lfloor>x\<rfloor> else \<lceil>x\<rceil>)
      in if - (2 ^ 63) \<le> t \<and> t < 2 ^ 63 then t else - (2 ^ 63))"

section \<open>The port file\<close>

text \<open>
  The file system is a function from a path to what \<open>os.ReadFile\<close> returns there: the
  text of an error (\<open>Inl\<close>) or the bytes of the file (\<open>Inr\<close>).

  \<open>readPortFile\<close> (main.go, lines 173 to 190) trims the contents, parses them with
  \<open>Atoi\<close> and accepts a port from 1 to 65535. An error is its message.
\<close>

type_synonym filesystem = "string \<Rightarrow> string + string"

definition readPortFile :: "filesystem \<Rightarrow> string \<Rightarrow> string + int" where
  "readPortFile fs filename =
     (case fs filename of
        Inl err \<Rightarrow> Inl (''failed to read port file: '' @ err)
      | Inr data \<Rightarrow>
          (let portStr = TrimSpace data
           in case Atoi portStr of
                None \<Rightarrow> Inl (''invalid port number: '' @ portStr)
              | Some port \<Rightarrow>
                  if port < 1 \<or> port > 65535
                  then Inl (''port number out of range: '' @ Itoa port)
                  else Inr port))"

section \<open>The session client\<close>

text \<open>
  An HTTP request of the client is a GET of a URL or a POST of a form to a URL (the
  form as \<open>url.Values.Encode\<close> sends it, its keys in order). The reply is the text of
  a transport error (\<open>Inl\<close>) or a response with its status code and the body that
  \<open>io.ReadAll\<close> reads.

  The HTTP client with its cookie jar, the network and the remote service are the
  environment: a state of any type \<open>'srv\<close> and a function \<open>http\<close> that answers a
  request in a state and gives the next state. Nothing is assumed about either.
\<close>

datatype request = HttpGet string | HttpPostForm string "(string \<times> string) list"

record response =
  StatusCode :: int
  Body :: string

type_synonym reply = "string + response"

type_synonym 'srv transport = "request \<Rightarrow> 'srv \<Rightarrow> reply \<times> 'srv"

text \<open>
  What \<open>json.Decoder.Decode\<close> puts into a \<open>map[string]interface{}\<close>. The decoder is
  a parameter of the model: the text of its error, or the decoded object.
\<close>

datatype jvalue =
    JNull
  | JBool bool
  | JNumber real
  | JString string
  | JArray "jvalue list"
  | JObject "(string \<times> jvalue) list"

type_synonym decoder = "string \<Rightarrow> string + (string \<rightharpoonup> jvalue)"

text \<open>
  A call of a client method as the sync loop sees it, with its result: the error text
  of \<open>Login\<close> (\<open>None\<close> for \<open>nil\<close>), the error text or the port of \<open>GetListeningPort\<close>,
  the port given to \<open>SetListeningPort\<close> and its error text.
\<close>

datatype call =
    LoginCall "string option"
  | GetPortCall "string + int"
  | SetPortCall int "string option"

text \<open>
  The world a cycle runs in: the state of the environment, and three histories the
  model keeps for stating properties: every HTTP exchange (\<open>wire\<close>), every call of a
  client method (\<open>calls\<close>), and every line given to \<open>log.Printf\<close> or \<open>log.Println\<close>
  (\<open>logs\<close>, without the time stamp and file name the logger puts in front).
\<close>

record 'srv world =
  server :: 'srv
  wire :: "(request \<times> reply) list"
  calls :: "call list"
  logs :: "string list"

definition roundTrip :: "'srv transport \<Rightarrow> request \<Rightarrow> 'srv world \<Rightarrow> reply \<times> 'srv world" where
  "roundTrip http req w =
     (let (r, s') = http req (server w)
      in (r, w\<lparr>server := s', wire := wire w @ [(req, r)]\<rparr>))"

definition logLine :: "string \<Rightarrow> 'srv world \<Rightarrow> 'srv world" where
  "logLine msg w = w\<lparr>logs := logs w @ [msg]\<rparr>"

definition recordCall :: "call \<Rightarrow> 'srv world \<Rightarrow> 'srv world" where
  "recordCall c w = w\<lparr>calls := calls w @ [c]\<rparr>"

text \<open>\<open>QBittorrentClient\<close> (lines 25 to 31); its \<open>httpClient\<close> is the environment.\<close>

record client =
  baseURL :: string
  username :: string
  password :: string
  sid :: string

text \<open>The three requests the client sends (lines 87 to 93, 111 to 113, 141 to 155).\<close>

definition loginRequest :: "client \<Rightarrow> request" where
  "loginRequest c =
     HttpPostForm (baseURL c @ ''/api/v2/auth/login'')
       [(''password'', password c), (''username'', username c)]"

definition preferencesRequest :: "client \<Rightarrow> request" where
  "preferencesRequest c = HttpGet (baseURL c @ ''/api/v2/app/preferences'')"

text \<open>
  \<open>json.Marshal\<close> of the map with the one key \<open>listen_port\<close>: an opening brace, the
  key between double quotes, a colon, the port in decimal digits, a closing brace.
\<close>

definition listenPortJSON :: "int \<Rightarrow> string" where
  "listenPortJSON port =
     [CHR 0x7B, CHR 0x22] @ ''listen_port'' @ [CHR 0x22, CHR 0x3A] @ Itoa port @ [CHR 0x7D]"

definition setPreferencesRequest :: "client \<Rightarrow> int \<Rightarrow> request" where
  "setPreferencesRequest c port =
     HttpPostForm (baseURL c @ ''/api/v2/app/setPreferences'') [(''json'', listenPortJSON port)]"

text \<open>\<open>Login\<close> (lines 86 to 108).\<close>

definition Login :: "'srv transport \<Rightarrow> client \<Rightarrow> 'srv world \<Rightarrow> string option \<times> 'srv world" where
  "Login http c w =
     (let (r, w1) = roundTrip http (loginRequest c) w;
          err =
            (case r of
               Inl e \<Rightarrow> Some (''login request failed: '' @ e)
             | Inr resp \<Rightarrow>
                 (let bodyStr = TrimSpace (Body resp)
                  in if StatusCode resp \<noteq> 200 \<or> bodyStr \<noteq> ''Ok.''
                     then Some (''login failed: status='' @ Itoa (StatusCode resp) @
                                '', body='' @ bodyStr)
                     else None));
          w2 = (if err = None
                then logLine ''Successfully authenticated with qBittorrent'' w1
                else w1)
      in (err, recordCall (LoginCall err) w2))"

text \<open>\<open>GetListeningPort\<close> (lines 110 to 138).\<close>

definition GetListeningPort ::
  "'srv transport \<Rightarrow> decoder \<Rightarrow> client \<Rightarrow> 'srv world \<Rightarrow> (string + int) \<times> 'srv world" where
  "GetListeningPort http dec c w =
     (let (r, w1) = roundTrip http (preferencesRequest c) w;
          res =
            (case r of
               Inl e \<Rightarrow> Inl (''failed to get preferences: '' @ e)
             | Inr resp \<Rightarrow>
                 if StatusCode resp = 403 then Inl ''authentication expired''
                 else if StatusCode resp \<noteq> 200
                 then Inl (''unexpected status code: '' @ Itoa (StatusCode resp))
                 else (case dec (Body resp) of
                         Inl e \<Rightarrow> Inl (''failed to decode preferences: '' @ e)
                       | Inr prefs \<Rightarrow>
                           (case prefs ''listen_port'' of
                              Some (JNumber port) \<Rightarrow> Inr (goInt port)
                            | _ \<Rightarrow> Inl ''listen_port not found in preferences'')))
      in (res, recordCall (GetPortCall res) w1))"

text \<open>
  \<open>SetListeningPort\<close> (lines 140 to 171). \<open>json.Marshal\<close> of a map from one string
  to an \<open>int\<close> does not fail.
\<close>

definition SetListeningPort ::
  "'srv transport \<Rightarrow> client \<Rightarrow> int \<Rightarrow> 'srv world \<Rightarrow> string option \<times> 'srv world" where
  "SetListeningPort http c port w =
     (let (r, w1) = roundTrip http (setPreferencesRequest c port) w;
          err =
            (case r of
               Inl e \<Rightarrow> Some (''failed to set preferences: '' @ e)
             | Inr resp \<Rightarrow>
                 if StatusCode resp = 403 then Some ''authentication expired''
                 else if StatusCode resp \<noteq> 200
                 then Some (''unexpected status code: '' @ Itoa (StatusCode resp) @
                            '', body: '' @ Body resp)
                 else None)
      in (err, recordCall (SetPortCall port err) w1))"

section \<open>The sync loop\<close>

text \<open>
  \<open>syncPort\<close> (lines 240 to 304) in three parts. \<open>syncPort_get\<close> is the block that
  gets the current port (lines 256 to 275): \<open>None\<close> where the block returns from
  \<open>syncPort\<close>, the current port where it goes on.
\<close>

definition syncPort_get ::
  "'srv transport \<Rightarrow> decoder \<Rightarrow> client \<Rightarrow> 'srv world \<Rightarrow> int option \<times> 'srv world" where
  "syncPort_get http dec c w =
     (let (r, w1) = GetListeningPort http dec c w
      in case r of
           Inr currentPort \<Rightarrow> (Some currentPort, w1)
         | Inl err \<Rightarrow>
             if Contains err ''authentication expired''
             then (let (lerr, w2) =
                         Login http c (logLine ''Session expired, re-authenticating...'' w1)
                   in case lerr of
                        Some e \<Rightarrow> (None, logLine (''Re-authentication failed: '' @ e) w2)
                      | None \<Rightarrow>
                          (let (r2, w3) = GetListeningPort http dec c w2
                           in case r2 of
                                Inl e2 \<Rightarrow>
                                  (None, logLine (''Failed to get current port after re-auth: '' @ e2) w3)
                              | Inr currentPort \<Rightarrow> (Some currentPort, w3)))
             else (None, logLine (''Failed to get current port: '' @ err) w1))"

text \<open>
  \<open>syncPort_set\<close> is the block that sets the port (lines 281 to 297): \<open>False\<close>
  where the block returns from \<open>syncPort\<close>, \<open>True\<close> where it goes on.
\<close>

definition syncPort_set ::
  "'srv transport \<Rightarrow> client \<Rightarrow> int \<Rightarrow> 'srv world \<Rightarrow> bool \<times> 'srv world" where
  "syncPort_set http c filePort w =
     (let (err, w1) = SetListeningPort http c filePort w
      in case err of
           None \<Rightarrow> (True, w1)
         | Some e \<Rightarrow>
             if Contains e ''authentication expired''
             then (let (lerr, w2) =
                         Login http c
                           (logLine ''Session expired during set, re-authenticating...'' w1)
                   in case lerr of
                        Some le \<Rightarrow> (False, logLine (''Re-authentication failed: '' @ le) w2)
                      | None \<Rightarrow>
                          (let (err2, w3) = SetListeningPort http c filePort w2
                           in case err2 of
                                Some e2 \<Rightarrow>
                                  (False, logLine (''Failed to set port after re-auth: '' @ e2) w3)
                              | None \<Rightarrow> (True, w3)))
             else (False, logLine (''Failed to set listening port: '' @ e) w1))"

text \<open>
  One cycle. The state is the value behind the pointer \<open>lastPort\<close> and the world;
  \<open>fs\<close> is the file system as the cycle finds it. The line logged at line 298 starts
  with the seven bytes the source file holds there.
\<close>

definition syncPort ::
  "'srv transport \<Rightarrow> decoder \<Rightarrow> filesystem \<Rightarrow> client \<Rightarrow> string \<Rightarrow>
     int \<times> 'srv world \<Rightarrow> int \<times> 'srv world" where
  "syncPort http dec fs c portFile st =
     (let (lastPort, w) = st
      in case readPortFile fs portFile of
           Inl err \<Rightarrow> (lastPort, logLine (''Error reading port file: '' @ err) w)
         | Inr filePort \<Rightarrow>
             if filePort = lastPort
             then (lastPort, logLine (''Port unchanged: '' @ Itoa filePort) w)
             else
               (case syncPort_get http dec c
                       (logLine (''Port changed from '' @ Itoa lastPort @ '' to '' @
                                 Itoa filePort @ '', updating qBittorrent...'') w) of
                  (None, w1) \<Rightarrow> (lastPort, w1)
                | (Some currentPort, w1) \<Rightarrow>
                    (let w2 = logLine (''qBittorrent current port: '' @ Itoa currentPort) w1
                     in if currentPort \<noteq> filePort
                        then (case syncPort_set http c filePort w2 of
                                (False, w3) \<Rightarrow> (lastPort, w3)
                              | (True, w3) \<Rightarrow>
                                  (filePort,
                                   logLine ([CHR 0xC3, CHR 0xA2, CHR 0xC5, CHR 0x93, CHR 0xE2, CHR 0x80, CHR 0x9C] @
                                            '' Successfully updated qBittorrent listening port to '' @
                                            Itoa filePort) w3))
                        else (filePort,
                              logLine (''qBittorrent already configured with correct port: '' @
                                       Itoa filePort) w2))))"

text \<open>
  The loop of \<open>main\<close> (lines 227 to 237): \<open>lastPort\<close> starts at 0, one cycle runs at
  once and one more at every tick, without end. \<open>syncLoop\<close> gives the state after
  the cycles of a finite run, one file system per cycle, in order.
\<close>

fun syncLoop ::
  "'srv transport \<Rightarrow> decoder \<Rightarrow> client \<Rightarrow> string \<Rightarrow> filesystem list \<Rightarrow>
     int \<times> 'srv world \<Rightarrow> int \<times> 'srv world" where
  "syncLoop http dec c portFile [] st = st"
| "syncLoop http dec c portFile (fs # ticks) st =
     syncLoop http dec c portFile ticks (syncPort http dec fs c portFile st)"

text \<open>What one cycle adds to the histories of calls and of HTTP exchanges.\<close>

definition cycleCalls ::
  "'srv transport \<Rightarrow> decoder \<Rightarrow> filesystem \<Rightarrow> client \<Rightarrow> string \<Rightarrow>
     int \<times> 'srv world \<Rightarrow> call list" where
  "cycleCalls http dec fs c portFile st =
     drop (length (calls (snd st))) (calls (snd (syncPort http dec fs c portFile st)))"

definition cycleWire ::
  "'srv transport \<Rightarrow> decoder \<Rightarrow> filesystem \<Rightarrow> client \<Rightarrow> string \<Rightarrow>
     int \<times> 'srv world \<Rightarrow> (request \<times> reply) list" where
  "cycleWire http dec fs c portFile st =
     drop (length (wire (snd st))) (wire (snd (syncPort http dec fs c portFile st)))"

section \<open>The words of the specification\<close>

text \<open>
  The specification's file format: the trimmed contents are a decimal integer from 1
  to 65535. A decimal integer is an optional sign and one or more decimal digits; its
  value is the sum of its digits, each times the power of ten of its place.
\<close>

definition isDecimalDigit :: "char \<Rightarrow> bool" where
  "isDecimalDigit ch = (ch \<in> set ''0123456789'')"

definition decimalValue :: "string \<Rightarrow> nat" where
  "decimalValue ds =
     sum_list (map2 (\<lambda>ch k. (of_char ch - 48) * 10 ^ k) ds (rev [0..<length ds]))"

definition isDecimalInteger :: "string \<Rightarrow> bool" where
  "isDecimalInteger s =
     (case s of
        [] \<Rightarrow> False
      | c # cs \<Rightarrow>
          (let ds = (if c = CHR ''-'' \<or> c = CHR ''+'' then cs else s)
           in ds \<noteq> [] \<and> list_all isDecimalDigit ds))"

definition integerValue :: "string \<Rightarrow> int" where
  "integerValue s =
     (case s of
        [] \<Rightarrow> 0
      | c # cs \<Rightarrow>
          if c = CHR ''-'' then - int (decimalValue cs)
          else if c = CHR ''+'' then int (decimalValue cs)
          else int (decimalValue s))"

definition validPortText :: "string \<Rightarrow> bool" where
  "validPortText data =
     (isDecimalInteger (TrimSpace data) \<and>
      1 \<le> integerValue (TrimSpace data) \<and> integerValue (TrimSpace data) \<le> 65535)"

text \<open>
  The kinds of call in the history of a cycle. A call failed when it returned an error.
  A call is a signal of an expired session for the sync loop when it is a
  \<open>GetListeningPort\<close> or \<open>SetListeningPort\<close> call whose error text contains
  \<open>authentication expired\<close> (lines 259 and 282).
\<close>

definition isLoginCall :: "call \<Rightarrow> bool" where
  "isLoginCall x = (case x of LoginCall _ \<Rightarrow> True | _ \<Rightarrow> False)"

definition isSetPortCall :: "call \<Rightarrow> bool" where
  "isSetPortCall x = (case x of SetPortCall _ _ \<Rightarrow> True | _ \<Rightarrow> False)"

definition failedCall :: "call \<Rightarrow> bool" where
  "failedCall x =
     (case x of
        LoginCall err \<Rightarrow> err \<noteq> None
      | GetPortCall res \<Rightarrow> isl res
      | SetPortCall _ err \<Rightarrow> err \<noteq> None)"

definition expiredSignal :: "call \<Rightarrow> bool" where
  "expiredSignal x =
     (case x of
        GetPortCall (Inl e) \<Rightarrow> Contains e ''authentication expired''
      | SetPortCall _ (Some e) \<Rightarrow> Contains e ''authentication expired''
      | _ \<Rightarrow> False)"

text \<open>
  A cycle aborts when the port file cannot be read or parsed, or when the last call it
  made failed: a \<open>GetListeningPort\<close> or \<open>SetListeningPort\<close> call, first or retried, or
  the \<open>Login\<close> of a re-authentication.
\<close>

definition cycleAborted ::
  "'srv transport \<Rightarrow> decoder \<Rightarrow> filesystem \<Rightarrow> client \<Rightarrow> string \<Rightarrow>
     int \<times> 'srv world \<Rightarrow> bool" where
  "cycleAborted http dec fs c portFile st =
     (isl (readPortFile fs portFile) \<or>
      (cycleCalls http dec fs c portFile st \<noteq> [] \<and>
       failedCall (last (cycleCalls http dec fs c portFile st))))"

section \<open>The paths of a cycle\<close>

text \<open>
  The runs of the two blocks and of the cycle, by the calls they make. \<open>getSite gs r\<close>:
  the block that gets the current port makes the calls \<open>gs\<close> and gives \<open>r\<close>.
  \<open>setSite p ss ok\<close>: the block that sets the port \<open>p\<close> makes the calls \<open>ss\<close> and goes on
  (\<open>ok\<close>) or returns. \<open>cycle rd lp evs lp'\<close>: with \<open>rd\<close> read from the port file and the
  last-known port \<open>lp\<close>, a cycle makes the calls \<open>evs\<close> and leaves the last-known port
  \<open>lp'\<close>. That every run of \<open>syncPort\<close> is one of these is proved below.
\<close>

inductive getSite :: "call list \<Rightarrow> int option \<Rightarrow> bool" where
  get_direct: "getSite [GetPortCall (Inr p)] (Some p)"
| get_failed: "\<not> Contains e ''authentication expired'' \<Longrightarrow> getSite [GetPortCall (Inl e)] None"
| get_reauth_failed:
    "Contains e ''authentication expired'' \<Longrightarrow>
     getSite [GetPortCall (Inl e), LoginCall (Some le)] None"
| get_retry_failed:
    "Contains e ''authentication expired'' \<Longrightarrow>
     getSite [GetPortCall (Inl e), LoginCall None, GetPortCall (Inl e2)] None"
| get_retry_ok:
    "Contains e ''authentication expired'' \<Longrightarrow>
     getSite [GetPortCall (Inl e), LoginCall None, GetPortCall (Inr p)] (Some p)"

inductive setSite :: "int \<Rightarrow> call list \<Rightarrow> bool \<Rightarrow> bool" where
  set_direct: "setSite p [SetPortCall p None] True"
| set_failed: "\<not> Contains e ''authentication expired'' \<Longrightarrow> setSite p [SetPortCall p (Some e)] False"
| set_reauth_failed:
    "Contains e ''authentication expired'' \<Longrightarrow>
     setSite p [SetPortCall p (Some e), LoginCall (Some le)] False"
| set_retry_failed:
    "Contains e ''authentication expired'' \<Longrightarrow>
     setSite p [SetPortCall p (Some e), LoginCall None, SetPortCall p (Some e2)] False"
| set_retry_ok:
    "Contains e ''authentication expired'' \<Longrightarrow>
     setSite p [SetPortCall p (Some e), LoginCall None, SetPortCall p None] True"

inductive cycle :: "string + int \<Rightarrow> int \<Rightarrow> call list \<Rightarrow> int \<Rightarrow> bool" where
  cycle_read_error: "cycle (Inl e) lp [] lp"
| cycle_unchanged: "cycle (Inr lp) lp [] lp"
| cycle_get_aborted: "p \<noteq> lp \<Longrightarrow> getSite gs None \<Longrightarrow> cycle (Inr p) lp gs lp"
| cycle_already: "p \<noteq> lp \<Longrightarrow> getSite gs (Some p) \<Longrightarrow> cycle (Inr p) lp gs p"
| cycle_set:
    "p \<noteq> lp \<Longrightarrow> getSite gs (Some cur) \<Longrightarrow> cur \<noteq> p \<Longrightarrow> setSite p ss ok \<Longrightarrow>
     lp' = (if ok then p else lp) \<Longrightarrow> cycle (Inr p) lp (gs @ ss) lp'"

text \<open>
  Two readings of a history, used in the proofs. \<open>retriedCalls\<close>: every call made right
  after a \<open>Login\<close>, with the calls that follow it. \<open>loginTriggers\<close>: for every \<open>Login\<close>, the
  call made right before it (\<open>prev\<close> before the first call of the list).
\<close>

fun retriedCalls :: "call list \<Rightarrow> (call \<times> call list) list" where
  "retriedCalls (LoginCall r # e # rest) = (e, rest) # retriedCalls (e # rest)"
| "retriedCalls (x # rest) = retriedCalls rest"
| "retriedCalls [] = []"

fun loginTriggers :: "call option \<Rightarrow> call list \<Rightarrow> call option list" where
  "loginTriggers prev [] = []"
| "loginTriggers prev (x # xs) =
     (if isLoginCall x then [prev] else []) @ loginTriggers (Some x) xs"

section \<open>An environment to run the model in\<close>

text \<open>
  For the concrete runs below: a remote service that answers the requests it gets with
  the replies of a list, in order, and refuses the connection when the list is used up;
  a world with empty histories; a client; a decoder that knows the JSON text of a
  \<open>listen_port\<close> of 6881 and of 30100 and fails on every other body; a file system with
  the port file at the default path of \<open>loadConfig\<close> and nothing else.
\<close>

definition scripted :: "request \<Rightarrow> reply list \<Rightarrow> reply \<times> reply list" where
  "scripted req s =
     (case s of [] \<Rightarrow> (Inl ''connection refused'', []) | r # rs \<Rightarrow> (r, rs))"

definition httpReply :: "int \<Rightarrow> string \<Rightarrow> reply" where
  "httpReply code payload = Inr \<lparr>StatusCode = code, Body = payload\<rparr>"

definition startWorld :: "'srv \<Rightarrow> 'srv world" where
  "startWorld s = \<lparr>server = s, wire = [], calls = [], logs = []\<rparr>"

definition exampleClient :: client where
  "exampleClient =
     \<lparr>baseURL = ''http://localhost:30024'', username = ''admin'', password = ''secret'',
      sid = []\<rparr>"

definition exampleDecoder :: decoder where
  "exampleDecoder body =
     (if body = listenPortJSON 6881 then Inr [''listen_port'' \<mapsto> JNumber 6881]
      else if body = listenPortJSON 30100 then Inr [''listen_port'' \<mapsto> JNumber 30100]
      else Inl ''invalid character'')"

definition portFilePath :: string where
  "portFilePath = ''/tmp/gluetun/forwarded_port''"

definition exampleFile :: "string \<Rightarrow> filesystem" where
  "exampleFile data =
     (\<lambda>path. if path = portFilePath then Inr data else Inl ''no such file or directory'')"

section \<open>Parsing the port file\<close>

lemma of_char_lt_256: "(of_char ch :: nat) < 256"
proof -
  have "(of_char ch :: nat) mod 256 = of_char ch" by simp
  then show ?thesis by (metis mod_less_divisor zero_less_numeral)
qed

lemma isDecimalDigit_iff: "isDecimalDigit ch \<longleftrightarrow> 48 \<le> (of_char ch :: nat) \<and> (of_char ch :: nat) \<le> 57"
proof
  assume "isDecimalDigit ch"
  then show "48 \<le> (of_char ch :: nat) \<and> (of_char ch :: nat) \<le> 57"
    unfolding isDecimalDigit_def by auto
next
  define n :: nat where "n = of_char ch"
  assume "48 \<le> (of_char ch :: nat) \<and> (of_char ch :: nat) \<le> 57"
  then have "48 \<le> n \<and> n \<le> 57" by (simp add: n_def)
  then have "n = 48 \<or> n = 49 \<or> n = 50 \<or> n = 51 \<or> n = 52 \<or> n = 53 \<or> n = 54 \<or> n = 55 \<or> n = 56 \<or> n = 57"
    by arith
  then have "n \<in> of_char ` set ''0123456789''" by auto
  then obtain d where d: "d \<in> set ''0123456789''" and "(of_char ch :: nat) = of_char d"
    unfolding n_def by blast
  then have "ch = d" by (simp only: of_char_eq_iff)
  then show "isDecimalDigit ch" using d unfolding isDecimalDigit_def by simp
qed

lemma digit_byte:
  assumes "isDecimalDigit ch"
  shows "((of_char ch + 256 - 48) mod 256 :: nat) = of_char ch - 48 \<and> (of_char ch :: nat) - 48 \<le> 9"
proof -
  define n :: nat where "n = of_char ch"
  have b: "48 \<le> n \<and> n \<le> 57" using assms by (simp add: isDecimalDigit_iff n_def)
  then have "n + 256 - 48 = (n - 48) + 256" by arith
  then have "(n + 256 - 48) mod 256 = (n - 48) mod 256" by (simp only: mod_add_self2)
  moreover have "n - 48 < 256" using b by arith
  ultimately have "(n + 256 - 48) mod 256 = n - 48" by simp
  moreover have "n - 48 \<le> 9" using b by arith
  ultimately show ?thesis unfolding n_def by simp
qed

lemma nondigit_byte:
  assumes "\<not> isDecimalDigit ch"
  shows "((of_char ch + 256 - 48) mod 256 :: nat) > 9"
proof -
  define n :: nat where "n = of_char ch"
  have lt: "n < 256" unfolding n_def by (rule of_char_lt_256)
  have b: "n < 48 \<or> 57 < n" using assms by (auto simp: isDecimalDigit_iff n_def)
  have "(n + 256 - 48) mod 256 > 9"
  proof (cases "n < 48")
    case True
    then have "n + 256 - 48 < 256" by arith
    then have "(n + 256 - 48) mod 256 = n + 256 - 48" by simp
    then show ?thesis by arith
  next
    case False
    then have "n + 256 - 48 = (n - 48) + 256" by arith
    then have "(n + 256 - 48) mod 256 = (n - 48) mod 256" by (simp only: mod_add_self2)
    moreover have "n - 48 < 256" using lt by arith
    ultimately have "(n + 256 - 48) mod 256 = n - 48" by simp
    then show ?thesis using b False by arith
  qed
  then show ?thesis unfolding n_def by simp
qed

lemma decimalValue_Nil: "decimalValue [] = 0"
  by (simp add: decimalValue_def)

lemma decimalValue_Cons: "decimalValue (ch # s) = (of_char ch - 48) * 10 ^ length s + decimalValue s"
  by (simp add: decimalValue_def)

lemma atoiDigits_eq:
  "atoiDigits s n = (if list_all isDecimalDigit s then Some (n * 10 ^ length s + decimalValue s) else None)"
proof (induction s arbitrary: n)
  case Nil
  show ?case by (simp add: decimalValue_Nil)
next
  case (Cons ch s)
  show ?case
  proof (cases "isDecimalDigit ch")
    case True
    then show ?thesis using digit_byte[OF True] Cons.IH
      by (simp add: decimalValue_Cons Let_def algebra_simps)
  next
    case False
    then show ?thesis using nondigit_byte[OF False] by (simp add: Let_def)
  qed
qed

lemma Atoi_eq:
  "Atoi s = (if isDecimalInteger s \<and> - (2 ^ 63) \<le> integerValue s \<and> integerValue s < 2 ^ 63
             then Some (integerValue s) else None)"
  by (cases s) (auto simp: Atoi_def isDecimalInteger_def integerValue_def Let_def atoiDigits_eq
                  isDecimalDigit_def)

lemma readPortFile_Inr_iff:
  "readPortFile fs filename = Inr port \<longleftrightarrow>
     (\<exists>data. fs filename = Inr data \<and> validPortText data \<and> port = integerValue (TrimSpace data))"
  by (cases "fs filename")
     (auto simp: readPortFile_def validPortText_def Atoi_eq Let_def split: if_splits)

text \<open>
  Claim C6. \<open>readPortFile\<close> succeeds exactly on file contents whose trimmed form is a
  decimal integer from 1 to 65535, and returns that integer; on every other content,
  and on a file that cannot be read, it returns an error.
\<close>

theorem readPortFile_accepts_exactly_valid_ports:
  "(readPortFile fs filename = Inr port \<longleftrightarrow>
      (\<exists>data. fs filename = Inr data \<and> validPortText data \<and>
              port = integerValue (TrimSpace data))) \<and>
   ((\<exists>err. readPortFile fs filename = Inl err) \<longleftrightarrow>
      \<not> (\<exists>data. fs filename = Inr data \<and> validPortText data))"
proof -
  have "(\<exists>err. readPortFile fs filename = Inl err) \<longleftrightarrow> \<not> (\<exists>port. readPortFile fs filename = Inr port)"
    by (cases "readPortFile fs filename") auto
  then show ?thesis using readPortFile_Inr_iff by blast
qed

text \<open>
  The theorem at a file that holds \<open>30100\<close> between a space and a line feed, and at
  a file that holds \<open>abc\<close>.
\<close>

lemma TrimSpace_ex1: "TrimSpace '' 30100\<newline>'' = ''30100''"
  by code_simp

lemma TrimSpace_ex2: "TrimSpace ''abc'' = ''abc''"
  by code_simp

theorem readPortFile_accepts_exactly_valid_ports_witness:
  "readPortFile (\<lambda>p. Inr '' 30100\<newline>'') ''/tmp/gluetun/forwarded_port'' = Inr 30100 \<and>
   (\<exists>err. readPortFile (\<lambda>p. Inr ''abc'') ''/tmp/gluetun/forwarded_port'' = Inl err)"
proof -
  have v: "validPortText '' 30100\<newline>''"
    by (simp add: validPortText_def TrimSpace_ex1 isDecimalInteger_def integerValue_def
          isDecimalDigit_def decimalValue_def)
  have i: "integerValue (TrimSpace '' 30100\<newline>'') = 30100"
    by (simp add: TrimSpace_ex1 integerValue_def decimalValue_def)
  have n: "\<not> validPortText ''abc''"
    by (simp add: validPortText_def TrimSpace_ex2 isDecimalInteger_def isDecimalDigit_def)
  show ?thesis
    using readPortFile_accepts_exactly_valid_ports
            [of "\<lambda>p. Inr '' 30100\<newline>''" "''/tmp/gluetun/forwarded_port''" 30100]
          readPortFile_accepts_exactly_valid_ports
            [of "\<lambda>p. Inr ''abc''" "''/tmp/gluetun/forwarded_port''" 0]
          v i n
    by auto
qed

section \<open>The client methods\<close>

lemma TrimSpace_Ok: "TrimSpace ''Ok.'' = ''Ok.''"
  by code_simp

lemma TrimSpace_Ok_newline: "TrimSpace ''Ok.\<newline>'' = ''Ok.''"
  by code_simp

lemma TrimSpace_Fails: "TrimSpace ''Fails.'' = ''Fails.''"
  by code_simp

lemma Login_ok_iff:
  "fst (Login http c w) = None \<longleftrightarrow>
     (\<exists>resp s'. http (loginRequest c) (server w) = (Inr resp, s') \<and>
        StatusCode resp = 200 \<and> TrimSpace (Body resp) = ''Ok.'')"
  by (cases "http (loginRequest c) (server w)")
     (auto simp: Login_def roundTrip_def Let_def split: prod.splits sum.splits if_splits)

text \<open>
  Claim C8. \<open>Login\<close> succeeds (returns no error) if and only if the request got a response
  whose status is 200 and whose body, trimmed, is exactly \<open>Ok.\<close>; with every other
  status or body, and with no response at all, it returns an error.
\<close>

theorem Login_succeeds_iff_200_and_Ok:
  "(fst (Login http c w) = None \<longleftrightarrow>
      (\<exists>resp s'. http (loginRequest c) (server w) = (Inr resp, s') \<and>
         StatusCode resp = 200 \<and> TrimSpace (Body resp) = ''Ok.'')) \<and>
   ((\<exists>err. fst (Login http c w) = Some err) \<longleftrightarrow>
      \<not> (\<exists>resp s'. http (loginRequest c) (server w) = (Inr resp, s') \<and>
           StatusCode resp = 200 \<and> TrimSpace (Body resp) = ''Ok.''))"
proof -
  have "(\<exists>err. fst (Login http c w) = Some err) \<longleftrightarrow> fst (Login http c w) \<noteq> None"
    by auto
  then show ?thesis using Login_ok_iff[of http c w] by simp
qed

text \<open>
  The theorem at a reply 200 with the body \<open>Ok.\<close> and a line feed, at a reply 200 with
  the body \<open>Fails.\<close>, and at a reply 403 with the body \<open>Ok.\<close>.
\<close>

theorem Login_succeeds_iff_200_and_Ok_witness:
  "fst (Login scripted exampleClient (startWorld [httpReply 200 ''Ok.\<newline>''])) = None \<and>
   (\<exists>err. fst (Login scripted exampleClient (startWorld [httpReply 200 ''Fails.''])) = Some err) \<and>
   (\<exists>err. fst (Login scripted exampleClient (startWorld [httpReply 403 ''Ok.''])) = Some err)"
proof -
  have a: "scripted (loginRequest exampleClient) (server (startWorld [httpReply 200 ''Ok.\<newline>''])) =
             (Inr \<lparr>StatusCode = 200, Body = ''Ok.\<newline>''\<rparr>, [])"
    by (simp add: scripted_def startWorld_def httpReply_def)
  have b: "scripted (loginRequest exampleClient) (server (startWorld [httpReply 200 ''Fails.''])) =
             (Inr \<lparr>StatusCode = 200, Body = ''Fails.''\<rparr>, [])"
    by (simp add: scripted_def startWorld_def httpReply_def)
  have c: "scripted (loginRequest exampleClient) (server (startWorld [httpReply 403 ''Ok.''])) =
             (Inr \<lparr>StatusCode = 403, Body = ''Ok.''\<rparr>, [])"
    by (simp add: scripted_def startWorld_def httpReply_def)
  show ?thesis
    using Login_succeeds_iff_200_and_Ok
            [of scripted exampleClient "startWorld [httpReply 200 ''Ok.\<newline>'']"]
          Login_succeeds_iff_200_and_Ok
            [of scripted exampleClient "startWorld [httpReply 200 ''Fails.'']"]
          Login_succeeds_iff_200_and_Ok
            [of scripted exampleClient "startWorld [httpReply 403 ''Ok.'']"]
    by (simp add: a b c TrimSpace_Ok_newline TrimSpace_Fails)
qed

lemma Get_expired_iff:
  "fst (GetListeningPort http dec c w) = Inl ''authentication expired'' \<longleftrightarrow>
     (\<exists>resp s'. http (preferencesRequest c) (server w) = (Inr resp, s') \<and> StatusCode resp = 403)"
  by (cases "http (preferencesRequest c) (server w)")
     (auto simp: GetListeningPort_def roundTrip_def Let_def
           split: prod.splits sum.splits if_splits option.splits jvalue.splits)

lemma Set_expired_iff:
  "fst (SetListeningPort http c port w) = Some ''authentication expired'' \<longleftrightarrow>
     (\<exists>resp s'. http (setPreferencesRequest c port) (server w) = (Inr resp, s') \<and>
        StatusCode resp = 403)"
  by (cases "http (setPreferencesRequest c port) (server w)")
     (auto simp: SetListeningPort_def roundTrip_def Let_def
           split: prod.splits sum.splits if_splits)

text \<open>
  Claim C7. The distinguished condition is the error whose text is exactly
  \<open>authentication expired\<close>. \<open>GetListeningPort\<close> and \<open>SetListeningPort\<close> return it exactly
  when the request got a response with the status 403 (Forbidden), the status the
  specification names for an expired session; never with another status, and never
  when the transport failed.
\<close>

theorem expired_condition_iff_status_403:
  "(fst (GetListeningPort http dec c w) = Inl ''authentication expired'' \<longleftrightarrow>
      (\<exists>resp s'. http (preferencesRequest c) (server w) = (Inr resp, s') \<and>
         StatusCode resp = 403)) \<and>
   (fst (SetListeningPort http c port w) = Some ''authentication expired'' \<longleftrightarrow>
      (\<exists>resp s'. http (setPreferencesRequest c port) (server w) = (Inr resp, s') \<and>
         StatusCode resp = 403))"
  using Get_expired_iff[of http dec c w] Set_expired_iff[of http c port w] by simp

text \<open>
  The theorem at a reply 403 to each method, and at a reply 500 to each method.
\<close>

theorem expired_condition_iff_status_403_witness:
  "fst (GetListeningPort scripted exampleDecoder exampleClient
          (startWorld [httpReply 403 ''Forbidden''])) = Inl ''authentication expired'' \<and>
   fst (SetListeningPort scripted exampleClient 30100
          (startWorld [httpReply 403 ''Forbidden''])) = Some ''authentication expired'' \<and>
   fst (GetListeningPort scripted exampleDecoder exampleClient
          (startWorld [httpReply 500 ''authentication expired''])) \<noteq>
     Inl ''authentication expired'' \<and>
   fst (SetListeningPort scripted exampleClient 30100
          (startWorld [httpReply 500 ''authentication expired''])) \<noteq>
     Some ''authentication expired''"
proof -
  have a: "scripted req (server (startWorld [httpReply code payload])) =
             (Inr \<lparr>StatusCode = code, Body = payload\<rparr>, [])" for req code payload
    by (simp add: scripted_def startWorld_def httpReply_def)
  show ?thesis
    using expired_condition_iff_status_403
            [of scripted exampleDecoder exampleClient "startWorld [httpReply 403 ''Forbidden'']" 30100]
          expired_condition_iff_status_403
            [of scripted exampleDecoder exampleClient
                "startWorld [httpReply 500 ''authentication expired'']" 30100]
    by (simp add: a)
qed

section \<open>The calls of a cycle\<close>

lemma logLine_simps [simp]:
  "calls (logLine m w) = calls w" "wire (logLine m w) = wire w" "server (logLine m w) = server w"
  by (simp_all add: logLine_def)

lemma Login_calls: "Login http c w = (r, w') \<Longrightarrow> calls w' = calls w @ [LoginCall r]"
  by (auto simp: Login_def roundTrip_def recordCall_def Let_def split: prod.splits)

lemma Get_calls: "GetListeningPort http dec c w = (r, w') \<Longrightarrow> calls w' = calls w @ [GetPortCall r]"
  by (auto simp: GetListeningPort_def roundTrip_def recordCall_def Let_def split: prod.splits)

lemma Set_calls: "SetListeningPort http c p w = (r, w') \<Longrightarrow> calls w' = calls w @ [SetPortCall p r]"
  by (auto simp: SetListeningPort_def roundTrip_def recordCall_def Let_def split: prod.splits)

lemma syncPort_get_shape:
  assumes "syncPort_get http dec c w = (res, w')"
  shows "\<exists>gs. calls w' = calls w @ gs \<and> getSite gs res"
  using assms unfolding syncPort_get_def
  by (auto split: prod.splits sum.splits option.splits if_splits
        dest!: Login_calls Get_calls intro: getSite.intros)

lemma syncPort_set_shape:
  assumes "syncPort_set http c p w = (ok, w')"
  shows "\<exists>ss. calls w' = calls w @ ss \<and> setSite p ss ok"
  using assms unfolding syncPort_set_def
  by (auto split: prod.splits sum.splits option.splits if_splits
        dest!: Login_calls Set_calls intro: setSite.intros)

lemma syncPort_shape:
  assumes run: "syncPort http dec fs c pf (lp, w) = (lp', w')"
  shows "\<exists>evs. calls w' = calls w @ evs \<and> cycle (readPortFile fs pf) lp evs lp'"
proof (cases "readPortFile fs pf")
  case (Inl e)
  with run have "lp' = lp" and "calls w' = calls w"
    by (auto simp: syncPort_def)
  then show ?thesis using Inl cycle_read_error by auto
next
  case (Inr p)
  show ?thesis
  proof (cases "p = lp")
    case True
    with run Inr have "lp' = lp" and "calls w' = calls w"
      by (auto simp: syncPort_def)
    then show ?thesis using Inr True cycle_unchanged by auto
  next
    case False
    define w0 where "w0 = logLine (''Port changed from '' @ Itoa lp @ '' to '' @ Itoa p @
                                    '', updating qBittorrent...'') w"
    obtain res w1 where g: "syncPort_get http dec c w0 = (res, w1)"
      by (cases "syncPort_get http dec c w0")
    from syncPort_get_shape[OF g] obtain gs where
      gs: "calls w1 = calls w @ gs" "getSite gs res" by (auto simp: w0_def)
    show ?thesis
    proof (cases res)
      case None
      with run Inr False g have "lp' = lp" and "w' = w1"
        by (auto simp: syncPort_def w0_def)
      then show ?thesis using gs None Inr False cycle_get_aborted by auto
    next
      case (Some cur)
      define w2 where "w2 = logLine (''qBittorrent current port: '' @ Itoa cur) w1"
      show ?thesis
      proof (cases "cur = p")
        case True
        with run Inr False g Some have "lp' = p" and "calls w' = calls w1"
          by (auto simp: syncPort_def w0_def Let_def)
        then show ?thesis using gs Some Inr False True cycle_already by auto
      next
        case ne: False
        obtain ok w3 where st: "syncPort_set http c p w2 = (ok, w3)"
          by (cases "syncPort_set http c p w2")
        from syncPort_set_shape[OF st] obtain ss where
          ss: "calls w3 = calls w1 @ ss" "setSite p ss ok" by (auto simp: w2_def)
        from run Inr False g Some ne st have "lp' = (if ok then p else lp)" and "calls w' = calls w3"
          by (auto simp: syncPort_def w0_def w2_def Let_def split: bool.splits)
        then have "calls w' = calls w @ (gs @ ss)" using gs ss by simp
        moreover have "cycle (Inr p) lp (gs @ ss) lp'"
          using False gs(2) ne ss(2) \<open>lp' = (if ok then p else lp)\<close> unfolding Some
          by (rule cycle_set)
        ultimately show ?thesis using Inr by auto
      qed
    qed
  qed
qed

lemma syncPort_cycle:
  "cycle (readPortFile fs pf) lp (cycleCalls http dec fs c pf (lp, w))
     (fst (syncPort http dec fs c pf (lp, w)))"
proof -
  obtain lp' w' where s: "syncPort http dec fs c pf (lp, w) = (lp', w')" by (cases "syncPort http dec fs c pf (lp, w)")
  from syncPort_shape[OF s] obtain evs where "calls w' = calls w @ evs" and "cycle (readPortFile fs pf) lp evs lp'" by blast
  then show ?thesis by (simp add: cycleCalls_def s)
qed

section \<open>What the paths have in common\<close>

lemma retriedCalls_mem:
  "evs = pre @ LoginCall r # e # post \<Longrightarrow> (e, post) \<in> set (retriedCalls evs)"
proof (induction pre arbitrary: evs)
  case Nil
  then show ?case by simp
next
  case (Cons x pre)
  then have m: "(e, post) \<in> set (retriedCalls (pre @ LoginCall r # e # post))" by simp
  show ?case
  proof (cases x)
    case (LoginCall r')
    then show ?thesis using Cons.prems m by (cases pre) auto
  next
    case (GetPortCall g)
    then show ?thesis using Cons.prems m by simp
  next
    case (SetPortCall q s)
    then show ?thesis using Cons.prems m by simp
  qed
qed

lemma cycle_login_bounds:
  assumes "cycle rd lp evs lp'"
  shows "length (filter isLoginCall (takeWhile (\<lambda>x. \<not> isSetPortCall x) evs)) \<le> 1"
    and "length (filter isLoginCall (dropWhile (\<lambda>x. \<not> isSetPortCall x) evs)) \<le> 1"
  using assms
  by (induction rule: cycle.induct;
      auto simp: isLoginCall_def isSetPortCall_def elim!: getSite.cases setSite.cases)+

lemma cycle_retry:
  assumes "cycle rd lp evs lp'"
  shows "\<forall>(e, rest) \<in> set (retriedCalls evs). failedCall e \<longrightarrow> rest = [] \<and> lp' = lp"
  using assms
  by (induction rule: cycle.induct;
      auto simp: failedCall_def elim!: getSite.cases setSite.cases)

lemma cycle_abort:
  assumes "cycle rd lp evs lp'"
  shows "if isl rd \<or> (evs \<noteq> [] \<and> failedCall (last evs)) then lp' = lp else rd = Inr lp'"
  using assms
  by (induction rule: cycle.induct;
      auto simp: failedCall_def elim!: getSite.cases setSite.cases)

lemma cycle_already_set:
  assumes "cycle (Inr p) lp evs lp'" and "p \<noteq> lp" and "GetPortCall (Inr p) \<in> set evs"
  shows "filter isSetPortCall evs = [] \<and> lp' = p"
  using assms
  by (induction "Inr p :: string + int" lp evs lp' rule: cycle.induct;
      auto simp: isSetPortCall_def elim!: getSite.cases setSite.cases)

lemma loginTriggers_mem:
  "(if pre = [] then prev else Some (last pre)) \<in> set (loginTriggers prev (pre @ LoginCall r # post))"
proof (induction pre arbitrary: prev)
  case Nil
  then show ?case by (simp add: isLoginCall_def)
next
  case (Cons x pre)
  from Cons.IH[of "Some x"] show ?case by (cases "pre = []") auto
qed

lemma cycle_triggers:
  assumes "cycle rd lp evs lp'"
  shows "\<forall>t \<in> set (loginTriggers None evs). \<exists>x. t = Some x \<and> expiredSignal x"
  using assms
  by (induction rule: cycle.induct;
      auto simp: isLoginCall_def expiredSignal_def elim!: getSite.cases setSite.cases)

lemma Contains_iff: "Contains s sub \<longleftrightarrow> (\<exists>ps ss. s = ps @ sub @ ss)"
proof (induction s)
  case Nil
  show ?case by auto
next
  case (Cons c cs)
  show ?case
  proof
    assume "Contains (c # cs) sub"
    then consider "prefix sub (c # cs)" | "Contains cs sub" by auto
    then show "\<exists>ps ss. c # cs = ps @ sub @ ss"
    proof cases
      case 1
      then obtain ss where "c # cs = sub @ ss" by (auto simp: prefix_def)
      then have "c # cs = [] @ sub @ ss" by simp
      then show ?thesis by blast
    next
      case 2
      with Cons.IH obtain ps ss where "cs = ps @ sub @ ss" by blast
      then have "c # cs = (c # ps) @ sub @ ss" by simp
      then show ?thesis by blast
    qed
  next
    assume "\<exists>ps ss. c # cs = ps @ sub @ ss"
    then obtain ps ss where e: "c # cs = ps @ sub @ ss" by blast
    show "Contains (c # cs) sub"
    proof (cases ps)
      case Nil
      with e have "prefix sub (c # cs)" by (simp add: prefix_def)
      then show ?thesis by simp
    next
      case (Cons p ps')
      with e have "cs = ps' @ sub @ ss" by simp
      with Cons.IH have "Contains cs sub" by blast
      then show ?thesis by simp
    qed
  qed
qed

lemma Contains_append_right: "Contains b sub \<Longrightarrow> Contains (a @ b) sub"
proof -
  assume "Contains b sub"
  then obtain ps ss where "b = ps @ sub @ ss" using Contains_iff by blast
  then have "a @ b = (a @ ps) @ sub @ ss" by simp
  then show ?thesis using Contains_iff by blast
qed

lemma Set_generic_error:
  assumes "http (setPreferencesRequest c port) (server w) = (Inr resp, s')"
    and "StatusCode resp \<noteq> 403" and "StatusCode resp \<noteq> 200"
  shows "fst (SetListeningPort http c port w) =
           Some (''unexpected status code: '' @ Itoa (StatusCode resp) @ '', body: '' @ Body resp)"
  using assms by (simp add: SetListeningPort_def roundTrip_def Let_def)

lemma cycle_classification:
  assumes "cycle rd lp evs lp'"
  shows "(\<forall>e rest. evs = GetPortCall (Inl e) # rest \<longrightarrow>
            (if Contains e ''authentication expired''
             then \<exists>r rest'. rest = LoginCall r # rest' else rest = [])) \<and>
         (\<forall>p e rest. dropWhile (\<lambda>x. \<not> isSetPortCall x) evs = SetPortCall p (Some e) # rest \<longrightarrow>
            (if Contains e ''authentication expired''
             then \<exists>r rest'. rest = LoginCall r # rest' else rest = []))"
  using assms
  by (induction rule: cycle.induct;
      auto simp: isSetPortCall_def elim!: getSite.cases setSite.cases)

lemma syncPort_unchanged:
  assumes "readPortFile fs pf = Inr lp"
  shows "syncPort http dec fs c pf (lp, w) = (lp, logLine (''Port unchanged: '' @ Itoa lp) w)"
  using assms by (simp add: syncPort_def)

lemma syncLoop_unchanged:
  assumes "\<forall>fs \<in> set ticks. readPortFile fs pf = Inr lp"
  shows "fst (syncLoop http dec c pf ticks (lp, w)) = lp \<and>
         wire (snd (syncLoop http dec c pf ticks (lp, w))) = wire w \<and>
         calls (snd (syncLoop http dec c pf ticks (lp, w))) = calls w \<and>
         server (snd (syncLoop http dec c pf ticks (lp, w))) = server w"
  using assms
proof (induction ticks arbitrary: w)
  case Nil
  show ?case by simp
next
  case (Cons fs ticks)
  then have r: "readPortFile fs pf = Inr lp" and rest: "\<forall>fs \<in> set ticks. readPortFile fs pf = Inr lp"
    by auto
  show ?case
    using Cons.IH[OF rest, of "logLine (''Port unchanged: '' @ Itoa lp) w"]
    by (simp add: syncPort_unchanged[OF r])
qed

lemma readPortFile_range: "readPortFile fs pf = Inr p \<Longrightarrow> 1 \<le> p \<and> p \<le> 65535"
  by (auto simp: readPortFile_def Let_def split: sum.splits option.splits if_splits)

lemma syncPort_lastPort: 
  "fst (syncPort http dec fs c pf (lp, w)) = lp \<or>
   readPortFile fs pf = Inr (fst (syncPort http dec fs c pf (lp, w)))"
  using cycle_abort[OF syncPort_cycle[of fs pf lp http dec c w]] by (auto split: if_splits)

lemma syncLoop_invariant:
  assumes "lp = 0 \<or> (1 \<le> lp \<and> lp \<le> 65535)"
  shows "fst (syncLoop http dec c pf ticks (lp, w)) = 0 \<or>
         (1 \<le> fst (syncLoop http dec c pf ticks (lp, w)) \<and>
          fst (syncLoop http dec c pf ticks (lp, w)) \<le> 65535)"
  using assms
proof (induction ticks arbitrary: lp w)
  case Nil
  then show ?case by simp
next
  case (Cons fs ticks)
  obtain lp' w' where s: "syncPort http dec fs c pf (lp, w) = (lp', w')"
    by (cases "syncPort http dec fs c pf (lp, w)")
  have "lp' = 0 \<or> (1 \<le> lp' \<and> lp' \<le> 65535)"
    using syncPort_lastPort[of http dec fs c pf lp w] readPortFile_range[of fs pf lp'] Cons.prems
    by (auto simp: s)
  from Cons.IH[OF this, of w'] show ?case by (simp add: s)
qed

lemma cycle_starts_with_get:
  assumes "cycle rd lp evs lp'" and "rd = Inr p" and "p \<noteq> lp"
  shows "\<exists>r rest. evs = GetPortCall r # rest"
  using assms
  by (induction rule: cycle.induct; auto elim!: getSite.cases setSite.cases)

section \<open>Concrete runs\<close>

text \<open>
  The port file holds \<open>30100\<close> and a line feed, or \<open>abc\<close>; the remote service answers
  by a script. The runs are evaluated by rewriting with the definitions.
\<close>

lemma TrimSpace_30100: "TrimSpace ''30100\<newline>'' = ''30100''"
  by code_simp

lemma read_30100: "readPortFile (exampleFile ''30100\<newline>'') portFilePath = Inr 30100"
  by (simp add: readPortFile_def exampleFile_def TrimSpace_30100 Atoi_def)

lemma read_abc: "readPortFile (exampleFile ''abc'') portFilePath = Inl ''invalid port number: abc''"
  by (simp add: readPortFile_def exampleFile_def TrimSpace_ex2 Atoi_def)

lemmas run_simps =
  syncPort_def syncPort_get_def syncPort_set_def GetListeningPort_def SetListeningPort_def
  Login_def roundTrip_def recordCall_def logLine_def scripted_def startWorld_def httpReply_def
  cycleCalls_def cycleWire_def exampleDecoder_def listenPortJSON_def Let_def goInt_def
  Itoa_def digits.simps digitChar_def read_30100 read_abc TrimSpace_Ok

lemma run_set_misclassified:
  "cycleCalls scripted exampleDecoder (exampleFile ''30100\<newline>'') exampleClient portFilePath
     (0, startWorld
           [httpReply 200 (listenPortJSON 6881), httpReply 500 ''authentication expired'',
            httpReply 200 ''Ok.'', httpReply 200 []]) =
   [GetPortCall (Inr 6881),
    SetPortCall 30100 (Some ''unexpected status code: 500, body: authentication expired''),
    LoginCall None,
    SetPortCall 30100 None]"
  by (simp add: run_simps)

lemma run_get_expired_twice:
  "cycleCalls scripted exampleDecoder (exampleFile ''30100\<newline>'') exampleClient portFilePath
     (0, startWorld
           [httpReply 403 ''Forbidden'', httpReply 200 ''Ok.'', httpReply 403 ''Forbidden'']) =
   [GetPortCall (Inl ''authentication expired''), LoginCall None,
    GetPortCall (Inl ''authentication expired'')]"
  by (simp add: run_simps)

lemma run_set_failed:
  "cycleCalls scripted exampleDecoder (exampleFile ''30100\<newline>'') exampleClient portFilePath
     (0, startWorld [httpReply 200 (listenPortJSON 6881), httpReply 500 ''internal error'']) =
   [GetPortCall (Inr 6881),
    SetPortCall 30100 (Some ''unexpected status code: 500, body: internal error'')]"
  by (simp add: run_simps)

lemma run_set_ok:
  "cycleCalls scripted exampleDecoder (exampleFile ''30100\<newline>'') exampleClient portFilePath
     (0, startWorld [httpReply 200 (listenPortJSON 6881), httpReply 200 []]) =
   [GetPortCall (Inr 6881), SetPortCall 30100 None]"
  by (simp add: run_simps)

lemma run_set_ok_lastPort:
  "fst (syncPort scripted exampleDecoder (exampleFile ''30100\<newline>'') exampleClient portFilePath
     (0, startWorld [httpReply 200 (listenPortJSON 6881), httpReply 200 []])) = 30100"
  by (simp add: run_simps)

lemma run_already:
  "cycleCalls scripted exampleDecoder (exampleFile ''30100\<newline>'') exampleClient portFilePath
     (0, startWorld [httpReply 200 (listenPortJSON 30100)]) =
   [GetPortCall (Inr 30100)]"
  by (simp add: run_simps)

section \<open>The claims about a cycle\<close>

text \<open>
  Claim C1. In every cycle of \<open>syncPort\<close>, the calls before the first
  \<open>SetListeningPort\<close> call (the site of \<open>GetListeningPort\<close>) hold at most one \<open>Login\<close>,
  and the calls from the first \<open>SetListeningPort\<close> call on (its site) hold at most one
  \<open>Login\<close>. Every \<open>Login\<close> comes right after a call that signalled an expired session.
  When the call made right after a \<open>Login\<close>, the one retried call, fails (with a second
  expiry or any other error) no call follows it in the cycle, so no further \<open>Login\<close>,
  and the cycle leaves the last-known port as it was.
\<close>

theorem syncPort_one_login_per_call_site:
  "length (filter isLoginCall
     (takeWhile (\<lambda>x. \<not> isSetPortCall x) (cycleCalls http dec fs c pf (lp, w)))) \<le> 1 \<and>
   length (filter isLoginCall
     (dropWhile (\<lambda>x. \<not> isSetPortCall x) (cycleCalls http dec fs c pf (lp, w)))) \<le> 1 \<and>
   (\<forall>pre r post. cycleCalls http dec fs c pf (lp, w) = pre @ LoginCall r # post \<longrightarrow>
      pre \<noteq> [] \<and> expiredSignal (last pre)) \<and>
   (\<forall>pre r e post.
      cycleCalls http dec fs c pf (lp, w) = pre @ LoginCall r # e # post \<and> failedCall e \<longrightarrow>
      post = [] \<and> fst (syncPort http dec fs c pf (lp, w)) = lp)"
proof -
  let ?evs = "cycleCalls http dec fs c pf (lp, w)"
  let ?lp' = "fst (syncPort http dec fs c pf (lp, w))"
  have cy: "cycle (readPortFile fs pf) lp ?evs ?lp'" by (rule syncPort_cycle)
  have trig: "pre \<noteq> [] \<and> expiredSignal (last pre)" if "?evs = pre @ LoginCall r # post" for pre r post
  proof -
    have "(if pre = [] then None else Some (last pre)) \<in> set (loginTriggers None ?evs)"
      unfolding that by (rule loginTriggers_mem)
    with cycle_triggers[OF cy] obtain x where
      "(if pre = [] then None else Some (last pre)) = Some x" and "expiredSignal x" by blast
    then show ?thesis by (cases "pre = []") auto
  qed
  have retry: "post = [] \<and> ?lp' = lp" if "?evs = pre @ LoginCall r # e # post" and "failedCall e" for pre r e post
  proof -
    have "(e, post) \<in> set (retriedCalls ?evs)" using that(1) by (rule retriedCalls_mem)
    with cycle_retry[OF cy] that(2) show ?thesis by blast
  qed
  show ?thesis using cycle_login_bounds[OF cy] trig retry by blast
qed

text \<open>
  The theorem at a cycle whose \<open>GetListeningPort\<close> call gets the status 403, whose
  \<open>Login\<close> succeeds and whose retried call gets the status 403 again.
\<close>

theorem syncPort_one_login_per_call_site_witness:
  "cycleCalls scripted exampleDecoder (exampleFile ''30100\<newline>'') exampleClient portFilePath
     (0, startWorld
           [httpReply 403 ''Forbidden'', httpReply 200 ''Ok.'', httpReply 403 ''Forbidden'']) =
     [GetPortCall (Inl ''authentication expired'')] @
       LoginCall None # GetPortCall (Inl ''authentication expired'') # [] \<and>
   failedCall (GetPortCall (Inl ''authentication expired'')) \<and>
   fst (syncPort scripted exampleDecoder (exampleFile ''30100\<newline>'') exampleClient portFilePath
     (0, startWorld
           [httpReply 403 ''Forbidden'', httpReply 200 ''Ok.'', httpReply 403 ''Forbidden''])) = 0"
proof -
  have run: "cycleCalls scripted exampleDecoder (exampleFile ''30100\<newline>'') exampleClient
      portFilePath
      (0, startWorld
            [httpReply 403 ''Forbidden'', httpReply 200 ''Ok.'', httpReply 403 ''Forbidden'']) =
     [GetPortCall (Inl ''authentication expired'')] @
       LoginCall None # GetPortCall (Inl ''authentication expired'') # []"
    using run_get_expired_twice by simp
  have failed: "failedCall (GetPortCall (Inl ''authentication expired''))"
    by (simp add: failedCall_def)
  show ?thesis
    using syncPort_one_login_per_call_site
            [of scripted exampleDecoder "exampleFile ''30100\<newline>''" exampleClient portFilePath 0
                "startWorld [httpReply 403 ''Forbidden'', httpReply 200 ''Ok.'',
                             httpReply 403 ''Forbidden'']"]
          run failed
    by blast
qed

text \<open>
  Claim C2. A cycle that aborts (the port file cannot be read or parsed, or the last
  call of the cycle failed: \<open>GetListeningPort\<close>, the \<open>Login\<close> of a re-authentication,
  the retried \<open>GetListeningPort\<close>, \<open>SetListeningPort\<close> or the retried
  \<open>SetListeningPort\<close>) leaves the last-known port as it was at the start of the cycle.
  A cycle that changes the last-known port did not abort, and the new value is the
  port read from the file.
\<close>

theorem aborted_cycle_keeps_lastPort:
  "(cycleAborted http dec fs c pf (lp, w) \<longrightarrow> fst (syncPort http dec fs c pf (lp, w)) = lp) \<and>
   (fst (syncPort http dec fs c pf (lp, w)) \<noteq> lp \<longrightarrow>
      \<not> cycleAborted http dec fs c pf (lp, w) \<and>
      readPortFile fs pf = Inr (fst (syncPort http dec fs c pf (lp, w))))"
  using cycle_abort[OF syncPort_cycle[of fs pf lp http dec c w]]
  unfolding cycleAborted_def by (auto split: if_splits)

text \<open>
  The theorem at a cycle whose \<open>SetListeningPort\<close> call gets the status 500, and at a
  cycle whose calls all succeed.
\<close>

theorem aborted_cycle_keeps_lastPort_witness:
  "cycleAborted scripted exampleDecoder (exampleFile ''30100\<newline>'') exampleClient portFilePath
     (0, startWorld [httpReply 200 (listenPortJSON 6881), httpReply 500 ''internal error'']) \<and>
   fst (syncPort scripted exampleDecoder (exampleFile ''30100\<newline>'') exampleClient portFilePath
     (0, startWorld [httpReply 200 (listenPortJSON 6881), httpReply 500 ''internal error''])) = 0 \<and>
   fst (syncPort scripted exampleDecoder (exampleFile ''30100\<newline>'') exampleClient portFilePath
     (0, startWorld [httpReply 200 (listenPortJSON 6881), httpReply 200 []])) = 30100 \<and>
   \<not> cycleAborted scripted exampleDecoder (exampleFile ''30100\<newline>'') exampleClient portFilePath
     (0, startWorld [httpReply 200 (listenPortJSON 6881), httpReply 200 []])"
proof -
  have ab: "cycleAborted scripted exampleDecoder (exampleFile ''30100\<newline>'') exampleClient
      portFilePath
      (0, startWorld [httpReply 200 (listenPortJSON 6881), httpReply 500 ''internal error''])"
    unfolding cycleAborted_def run_set_failed by (simp add: failedCall_def)
  have ch: "fst (syncPort scripted exampleDecoder (exampleFile ''30100\<newline>'') exampleClient
      portFilePath
      (0, startWorld [httpReply 200 (listenPortJSON 6881), httpReply 200 []])) \<noteq> 0"
    unfolding run_set_ok_lastPort by simp
  show ?thesis
    using aborted_cycle_keeps_lastPort
            [of scripted exampleDecoder "exampleFile ''30100\<newline>''" exampleClient portFilePath 0
                "startWorld [httpReply 200 (listenPortJSON 6881), httpReply 500 ''internal error'']"]
          aborted_cycle_keeps_lastPort
            [of scripted exampleDecoder "exampleFile ''30100\<newline>''" exampleClient portFilePath 0
                "startWorld [httpReply 200 (listenPortJSON 6881), httpReply 200 []]"]
          ab ch run_set_ok_lastPort
    by simp
qed

text \<open>
  Claim C3. The port file holds 30100, the last-known port is 0, the remote service
  reports the port 6881 and its session is valid: then the cycle makes exactly one
  \<open>GetListeningPort\<close> call followed by exactly one \<open>SetListeningPort\<close> call with
  the port 30100. The code at a run of this scenario in which no reply has the status
  403 and the reply to \<open>SetListeningPort\<close> has the status 500 and the body
  \<open>authentication expired\<close>: the cycle takes the failure for an expired session, calls
  \<open>Login\<close> and calls \<open>SetListeningPort\<close> a second time, two such calls in all, and
  sets the last-known port 30100. The same reply to \<open>GetListeningPort\<close> ends the cycle
  after that one call.
\<close>

theorem scenario_30100_set_reply_500_reauthenticates:
  "readPortFile (exampleFile ''30100\<newline>'') portFilePath = Inr 30100 \<and>
   cycleCalls scripted exampleDecoder (exampleFile ''30100\<newline>'') exampleClient portFilePath
     (0, startWorld
           [httpReply 200 (listenPortJSON 6881), httpReply 500 ''authentication expired'',
            httpReply 200 ''Ok.'', httpReply 200 []]) =
     [GetPortCall (Inr 6881),
      SetPortCall 30100 (Some ''unexpected status code: 500, body: authentication expired''),
      LoginCall None,
      SetPortCall 30100 None] \<and>
   length (filter isSetPortCall
     (cycleCalls scripted exampleDecoder (exampleFile ''30100\<newline>'') exampleClient portFilePath
        (0, startWorld
              [httpReply 200 (listenPortJSON 6881), httpReply 500 ''authentication expired'',
               httpReply 200 ''Ok.'', httpReply 200 []]))) = 2 \<and>
   fst (syncPort scripted exampleDecoder (exampleFile ''30100\<newline>'') exampleClient portFilePath
     (0, startWorld
           [httpReply 200 (listenPortJSON 6881), httpReply 500 ''authentication expired'',
            httpReply 200 ''Ok.'', httpReply 200 []])) = 30100 \<and>
   cycleCalls scripted exampleDecoder (exampleFile ''30100\<newline>'') exampleClient portFilePath
     (0, startWorld [httpReply 500 ''authentication expired'']) =
     [GetPortCall (Inl ''unexpected status code: 500'')]"
proof -
  have lp: "fst (syncPort scripted exampleDecoder (exampleFile ''30100\<newline>'') exampleClient
      portFilePath
      (0, startWorld
            [httpReply 200 (listenPortJSON 6881), httpReply 500 ''authentication expired'',
             httpReply 200 ''Ok.'', httpReply 200 []])) = 30100"
    by (simp add: run_simps)
  have get: "cycleCalls scripted exampleDecoder (exampleFile ''30100\<newline>'') exampleClient
      portFilePath (0, startWorld [httpReply 500 ''authentication expired'']) =
     [GetPortCall (Inl ''unexpected status code: 500'')]"
    by (simp add: run_simps)
  show ?thesis
    using lp get by (simp add: run_set_misclassified read_30100 isSetPortCall_def)
qed

text \<open>
  Claim C4. A cycle in which the port read from the file equals the last-known port
  makes no HTTP exchange and no client call (no \<open>GetListeningPort\<close>, no
  \<open>SetListeningPort\<close>, no \<open>Login\<close>), leaves the remote service as it was and leaves
  the last-known port unchanged. Hence after a cycle that read the port \<open>p\<close> and did not
  abort, any number of further cycles that read \<open>p\<close> again add no HTTP exchange and no
  call, and the last-known port stays \<open>p\<close>.
\<close>

theorem unchanged_port_makes_no_http_call:
  "(readPortFile fs pf = Inr lp \<longrightarrow>
      cycleWire http dec fs c pf (lp, w) = [] \<and> cycleCalls http dec fs c pf (lp, w) = [] \<and>
      server (snd (syncPort http dec fs c pf (lp, w))) = server w \<and>
      fst (syncPort http dec fs c pf (lp, w)) = lp) \<and>
   (readPortFile fs pf = Inr p \<and> \<not> cycleAborted http dec fs c pf (lp, w) \<and>
    (\<forall>fs' \<in> set ticks. readPortFile fs' pf = Inr p) \<longrightarrow>
      fst (syncLoop http dec c pf ticks (syncPort http dec fs c pf (lp, w))) = p \<and>
      wire (snd (syncLoop http dec c pf ticks (syncPort http dec fs c pf (lp, w)))) =
        wire (snd (syncPort http dec fs c pf (lp, w))) \<and>
      calls (snd (syncLoop http dec c pf ticks (syncPort http dec fs c pf (lp, w)))) =
        calls (snd (syncPort http dec fs c pf (lp, w))) \<and>
      server (snd (syncLoop http dec c pf ticks (syncPort http dec fs c pf (lp, w)))) =
        server (snd (syncPort http dec fs c pf (lp, w))))"
proof -
  have one: "cycleWire http dec fs c pf (lp, w) = [] \<and> cycleCalls http dec fs c pf (lp, w) = [] \<and>
      server (snd (syncPort http dec fs c pf (lp, w))) = server w \<and>
      fst (syncPort http dec fs c pf (lp, w)) = lp" if "readPortFile fs pf = Inr lp"
    by (simp add: cycleWire_def cycleCalls_def syncPort_unchanged[OF that])
  have many: "fst (syncLoop http dec c pf ticks (syncPort http dec fs c pf (lp, w))) = p \<and>
      wire (snd (syncLoop http dec c pf ticks (syncPort http dec fs c pf (lp, w)))) =
        wire (snd (syncPort http dec fs c pf (lp, w))) \<and>
      calls (snd (syncLoop http dec c pf ticks (syncPort http dec fs c pf (lp, w)))) =
        calls (snd (syncPort http dec fs c pf (lp, w))) \<and>
      server (snd (syncLoop http dec c pf ticks (syncPort http dec fs c pf (lp, w)))) =
        server (snd (syncPort http dec fs c pf (lp, w)))"
    if rd: "readPortFile fs pf = Inr p" and na: "\<not> cycleAborted http dec fs c pf (lp, w)"
      and all: "\<forall>fs' \<in> set ticks. readPortFile fs' pf = Inr p"
  proof -
    obtain lp' w' where s: "syncPort http dec fs c pf (lp, w) = (lp', w')"
      by (cases "syncPort http dec fs c pf (lp, w)")
    have "readPortFile fs pf = Inr lp'"
      using cycle_abort[OF syncPort_cycle[of fs pf lp http dec c w]] na
      unfolding cycleAborted_def by (auto simp: s split: if_splits)
    then have "lp' = p" using rd by simp
    then show ?thesis using syncLoop_unchanged[OF all, of http dec c w'] by (simp add: s)
  qed
  show ?thesis using one many by blast
qed

text \<open>
  The theorem at a cycle that starts with the last-known port 30100, and at two more
  cycles after a cycle that set the port 30100.
\<close>

theorem unchanged_port_makes_no_http_call_witness:
  "cycleWire scripted exampleDecoder (exampleFile ''30100\<newline>'') exampleClient portFilePath
     (30100, startWorld [httpReply 200 (listenPortJSON 6881)]) = [] \<and>
   cycleCalls scripted exampleDecoder (exampleFile ''30100\<newline>'') exampleClient portFilePath
     (30100, startWorld [httpReply 200 (listenPortJSON 6881)]) = [] \<and>
   fst (syncLoop scripted exampleDecoder exampleClient portFilePath
          [exampleFile ''30100\<newline>'', exampleFile ''30100\<newline>'']
          (syncPort scripted exampleDecoder (exampleFile ''30100\<newline>'') exampleClient portFilePath
             (0, startWorld [httpReply 200 (listenPortJSON 6881), httpReply 200 []]))) = 30100 \<and>
   wire (snd (syncLoop scripted exampleDecoder exampleClient portFilePath
          [exampleFile ''30100\<newline>'', exampleFile ''30100\<newline>'']
          (syncPort scripted exampleDecoder (exampleFile ''30100\<newline>'') exampleClient portFilePath
             (0, startWorld [httpReply 200 (listenPortJSON 6881), httpReply 200 []])))) =
     wire (snd (syncPort scripted exampleDecoder (exampleFile ''30100\<newline>'') exampleClient
                  portFilePath
                  (0, startWorld [httpReply 200 (listenPortJSON 6881), httpReply 200 []])))"
proof -
  have na: "\<not> cycleAborted scripted exampleDecoder (exampleFile ''30100\<newline>'') exampleClient
      portFilePath (0, startWorld [httpReply 200 (listenPortJSON 6881), httpReply 200 []])"
    unfolding cycleAborted_def run_set_ok by (simp add: failedCall_def read_30100)
  have all: "\<forall>fs' \<in> set [exampleFile ''30100\<newline>'', exampleFile ''30100\<newline>''].
               readPortFile fs' portFilePath = Inr 30100"
    by (simp add: read_30100)
  show ?thesis
    using unchanged_port_makes_no_http_call
            [where fs = "exampleFile ''30100\<newline>''" and pf = portFilePath and lp = 30100
               and http = scripted and dec = exampleDecoder and c = exampleClient
               and w = "startWorld [httpReply 200 (listenPortJSON 6881)]"
               and p = 30100 and ticks = "[]"]
          unchanged_port_makes_no_http_call
            [where fs = "exampleFile ''30100\<newline>''" and pf = portFilePath and lp = 0
               and http = scripted and dec = exampleDecoder and c = exampleClient
               and w = "startWorld [httpReply 200 (listenPortJSON 6881), httpReply 200 []]"
               and p = 30100
               and ticks = "[exampleFile ''30100\<newline>'', exampleFile ''30100\<newline>'']"]
          na all read_30100
    by simp
qed

text \<open>
  Claim C5. In a cycle in which the port read from the file differs from the
  last-known port and a \<open>GetListeningPort\<close> call (the first or the retried one) returns
  the port read from the file, no \<open>SetListeningPort\<close> call is made and the last-known
  port becomes the port read from the file.
\<close>

theorem remote_already_at_file_port:
  assumes "readPortFile fs pf = Inr p" and "p \<noteq> lp"
    and "GetPortCall (Inr p) \<in> set (cycleCalls http dec fs c pf (lp, w))"
  shows "filter isSetPortCall (cycleCalls http dec fs c pf (lp, w)) = [] \<and>
         fst (syncPort http dec fs c pf (lp, w)) = p"
  using cycle_already_set[of p lp "cycleCalls http dec fs c pf (lp, w)"
          "fst (syncPort http dec fs c pf (lp, w))"]
        syncPort_cycle[of fs pf lp http dec c w] assms
  by simp

text \<open>
  The theorem at a cycle in which the remote service reports the port 30100 of the
  file.
\<close>

theorem remote_already_at_file_port_witness:
  "readPortFile (exampleFile ''30100\<newline>'') portFilePath = Inr 30100 \<and>
   GetPortCall (Inr 30100) \<in>
     set (cycleCalls scripted exampleDecoder (exampleFile ''30100\<newline>'') exampleClient
            portFilePath (0, startWorld [httpReply 200 (listenPortJSON 30100)])) \<and>
   filter isSetPortCall
     (cycleCalls scripted exampleDecoder (exampleFile ''30100\<newline>'') exampleClient
        portFilePath (0, startWorld [httpReply 200 (listenPortJSON 30100)])) = [] \<and>
   fst (syncPort scripted exampleDecoder (exampleFile ''30100\<newline>'') exampleClient
          portFilePath (0, startWorld [httpReply 200 (listenPortJSON 30100)])) = 30100"
proof -
  have ne: "(30100::int) \<noteq> 0" by simp
  have m: "GetPortCall (Inr 30100) \<in>
     set (cycleCalls scripted exampleDecoder (exampleFile ''30100\<newline>'') exampleClient
            portFilePath (0, startWorld [httpReply 200 (listenPortJSON 30100)]))"
    unfolding run_already by simp
  show ?thesis
    using remote_already_at_file_port[OF read_30100 ne m] read_30100 m by simp
qed

text \<open>
  Claim C9. Started at 0, the last-known port after any number of cycles, with any
  port files and any remote service, is 0 or a port from 1 to 65535. A port read from
  the file is never 0, so a cycle that starts with the last-known port 0 and reads a
  valid port does not stop at the comparison: its first call is \<open>GetListeningPort\<close>.
\<close>

theorem lastPort_zero_or_valid_port:
  "(fst (syncLoop http dec c pf ticks (0, w)) = 0 \<or>
    (1 \<le> fst (syncLoop http dec c pf ticks (0, w)) \<and>
     fst (syncLoop http dec c pf ticks (0, w)) \<le> 65535)) \<and>
   (readPortFile fs pf = Inr p \<longrightarrow>
      p \<noteq> 0 \<and> (\<exists>r rest. cycleCalls http dec fs c pf (0, w') = GetPortCall r # rest))"
proof -
  have "p \<noteq> 0 \<and> (\<exists>r rest. cycleCalls http dec fs c pf (0, w') = GetPortCall r # rest)"
    if rd: "readPortFile fs pf = Inr p"
  proof -
    have "p \<noteq> 0" using readPortFile_range[OF rd] by simp
    then show ?thesis
      using cycle_starts_with_get[OF syncPort_cycle[of fs pf 0 http dec c w'] rd] by simp
  qed
  then show ?thesis using syncLoop_invariant[of 0 http dec c pf ticks w] by simp
qed

text \<open>
  The theorem at a run of two cycles, the first with a port file that holds \<open>abc\<close>, the
  second with one that holds 30100.
\<close>

theorem lastPort_zero_or_valid_port_witness:
  "readPortFile (exampleFile ''30100\<newline>'') portFilePath = Inr 30100 \<and>
   (\<exists>r rest. cycleCalls scripted exampleDecoder (exampleFile ''30100\<newline>'') exampleClient
                portFilePath
                (0, startWorld [httpReply 200 (listenPortJSON 6881), httpReply 200 []]) =
              GetPortCall r # rest) \<and>
   fst (syncLoop scripted exampleDecoder exampleClient portFilePath
          [exampleFile ''abc'', exampleFile ''30100\<newline>'']
          (0, startWorld [httpReply 200 (listenPortJSON 6881), httpReply 200 []])) = 30100"
proof -
  have run: "fst (syncLoop scripted exampleDecoder exampleClient portFilePath
          [exampleFile ''abc'', exampleFile ''30100\<newline>'']
          (0, startWorld [httpReply 200 (listenPortJSON 6881), httpReply 200 []])) = 30100"
    by (simp add: run_simps)
  show ?thesis
    using lastPort_zero_or_valid_port
            [where http = scripted and dec = exampleDecoder and c = exampleClient
               and pf = portFilePath
               and ticks = "[exampleFile ''abc'', exampleFile ''30100\<newline>'']"
               and w = "startWorld [httpReply 200 (listenPortJSON 6881), httpReply 200 []]"
               and fs = "exampleFile ''30100\<newline>''" and p = 30100
               and w' = "startWorld [httpReply 200 (listenPortJSON 6881), httpReply 200 []]"]
          read_30100 run
    by simp
qed

text \<open>
  Claim C10. The sync loop takes a failed \<open>GetListeningPort\<close> or \<open>SetListeningPort\<close>
  call for an expired session exactly when the error text contains
  \<open>authentication expired\<close>: then the next call of the cycle is \<open>Login\<close>, otherwise the
  failed call is the last of the cycle. \<open>SetListeningPort\<close> puts the body of a response
  whose status is neither 200 nor 403 into its error text, so such a response with a
  body that contains \<open>authentication expired\<close> gives an error that is not the
  distinguished one and yet contains that text: the cycle re-authenticates and retries
  where it would otherwise abort.
\<close>

theorem error_text_match_misclassifies_set_failure:
  "(http (setPreferencesRequest c port) (server w0) = (Inr resp, s') \<and>
    StatusCode resp \<noteq> 403 \<and> StatusCode resp \<noteq> 200 \<and>
    Contains (Body resp) ''authentication expired'' \<longrightarrow>
      (\<exists>e. fst (SetListeningPort http c port w0) = Some e \<and>
           e \<noteq> ''authentication expired'' \<and> Contains e ''authentication expired'')) \<and>
   (\<forall>e rest. cycleCalls http dec fs c pf (lp, w) = GetPortCall (Inl e) # rest \<longrightarrow>
      (if Contains e ''authentication expired''
       then \<exists>r rest'. rest = LoginCall r # rest' else rest = [])) \<and>
   (\<forall>p e rest.
      dropWhile (\<lambda>x. \<not> isSetPortCall x) (cycleCalls http dec fs c pf (lp, w)) =
        SetPortCall p (Some e) # rest \<longrightarrow>
      (if Contains e ''authentication expired''
       then \<exists>r rest'. rest = LoginCall r # rest' else rest = []))"
proof -
  have a: "\<exists>e. fst (SetListeningPort http c port w0) = Some e \<and>
             e \<noteq> ''authentication expired'' \<and> Contains e ''authentication expired''"
    if h: "http (setPreferencesRequest c port) (server w0) = (Inr resp, s')"
      "StatusCode resp \<noteq> 403" "StatusCode resp \<noteq> 200"
      "Contains (Body resp) ''authentication expired''"
  proof -
    let ?e = "''unexpected status code: '' @ Itoa (StatusCode resp) @ '', body: '' @ Body resp"
    have "fst (SetListeningPort http c port w0) = Some ?e"
      using h(1-3) by (rule Set_generic_error)
    moreover have "?e \<noteq> ''authentication expired''" by simp
    moreover have "Contains ?e ''authentication expired''"
      using Contains_append_right[OF h(4), of "''unexpected status code: '' @ Itoa (StatusCode resp) @ '', body: ''"]
      by simp
    ultimately show ?thesis by blast
  qed
  show ?thesis
    using a cycle_classification[OF syncPort_cycle[of fs pf lp http dec c w]] by blast
qed

text \<open>
  The theorem at a cycle whose \<open>SetListeningPort\<close> call gets the status 500 and the
  body \<open>authentication expired\<close>.
\<close>

theorem error_text_match_misclassifies_set_failure_witness:
  "(\<exists>e. fst (SetListeningPort scripted exampleClient 30100
              (startWorld [httpReply 500 ''authentication expired''])) = Some e \<and>
        e \<noteq> ''authentication expired'' \<and> Contains e ''authentication expired'') \<and>
   dropWhile (\<lambda>x. \<not> isSetPortCall x)
     (cycleCalls scripted exampleDecoder (exampleFile ''30100\<newline>'') exampleClient portFilePath
        (0, startWorld
              [httpReply 200 (listenPortJSON 6881), httpReply 500 ''authentication expired'',
               httpReply 200 ''Ok.'', httpReply 200 []])) =
     SetPortCall 30100 (Some ''unexpected status code: 500, body: authentication expired'') #
       [LoginCall None, SetPortCall 30100 None] \<and>
   (\<exists>r rest'. [LoginCall None, SetPortCall 30100 None] = LoginCall r # rest')"
proof -
  have h: "scripted (setPreferencesRequest exampleClient 30100)
             (server (startWorld [httpReply 500 ''authentication expired''])) =
           (Inr \<lparr>StatusCode = 500, Body = ''authentication expired''\<rparr>, [])"
    by (simp add: scripted_def startWorld_def httpReply_def)
  have b: "Contains (Body \<lparr>StatusCode = 500, Body = ''authentication expired''\<rparr>)
             ''authentication expired''"
    by simp
  have d: "dropWhile (\<lambda>x. \<not> isSetPortCall x)
     (cycleCalls scripted exampleDecoder (exampleFile ''30100\<newline>'') exampleClient portFilePath
        (0, startWorld
              [httpReply 200 (listenPortJSON 6881), httpReply 500 ''authentication expired'',
               httpReply 200 ''Ok.'', httpReply 200 []])) =
     SetPortCall 30100 (Some ''unexpected status code: 500, body: authentication expired'') #
       [LoginCall None, SetPortCall 30100 None]"
    unfolding run_set_misclassified by (simp add: isSetPortCall_def)
  have k: "Contains ''unexpected status code: 500, body: authentication expired''
             ''authentication expired''"
    by simp
  note t = error_text_match_misclassifies_set_failure
            [where http = scripted and c = exampleClient and port = 30100
               and ?w0.0 = "startWorld [httpReply 500 ''authentication expired'']"
               and resp = "\<lparr>StatusCode = 500, Body = ''authentication expired''\<rparr>"
               and s' = "[]" and dec = exampleDecoder
               and fs = "exampleFile ''30100\<newline>''" and pf = portFilePath and lp = 0
               and w = "startWorld
                   [httpReply 200 (listenPortJSON 6881), httpReply 500 ''authentication expired'',
                    httpReply 200 ''Ok.'', httpReply 200 []]"]
  from t h b have one: "\<exists>e. fst (SetListeningPort scripted exampleClient 30100
              (startWorld [httpReply 500 ''authentication expired''])) = Some e \<and>
        e \<noteq> ''authentication expired'' \<and> Contains e ''authentication expired''"
    by simp
  from t d k have two: "\<exists>r rest'. [LoginCall None, SetPortCall 30100 None] = LoginCall r # rest'"
    by simp
  show ?thesis using one d two by simp
qed

end
